theory Spec2Isabelle
  imports Complex_Main "HOL-Library.Sublist"
begin

section \<open>The market-radar WebSocket hook of CryptoSage\<close>

text \<open>
  This theory embeds \<^verbatim>\<open>useMarketRadarWebSocket\<close> (the hook file appended to
  \<^verbatim>\<open>src/frontend/app/chat/page.tsx\<close>, lines 645 to 766): the React state it returns,
  the four refs, the \<^verbatim>\<open>connect\<close> callback with the four handlers it installs on
  the socket, and the effect with its cleanup. Each handler is a function from the
  state before the call to the state after it. The browser is the part of the state
  that holds the sockets created so far and the pending timeouts, and an event of the
  browser runs the handler of the socket or timeout it belongs to.
\<close>

subsection \<open>JavaScript values\<close>

text \<open>
  The values that \<^verbatim>\<open>JSON.parse\<close> returns, and \<^verbatim>\<open>undefined\<close>, which reading a
  missing property gives. An object is the list of its own properties. The handler
  never looks inside a number, a boolean or an array.
\<close>

datatype js =
    JUndefined
  | JNull
  | JBool bool
  | JNum real
  | JStr string
  | JArr "js list"
  | JObj "(string \<times> js) list"

datatype exn = TypeError | SyntaxError

text \<open>
  \<^verbatim>\<open>v.k\<close> for the property names the hook reads (\<^verbatim>\<open>type\<close>, \<^verbatim>\<open>data\<close>,
  \<^verbatim>\<open>timestamp\<close>, \<^verbatim>\<open>message\<close>, \<^verbatim>\<open>snapshot\<close>, \<^verbatim>\<open>anomalies\<close>, \<^verbatim>\<open>tempo\<close>,
  \<^verbatim>\<open>timeline\<close>): on \<^verbatim>\<open>null\<close> and \<^verbatim>\<open>undefined\<close> the read throws a TypeError, on
  an object it gives the own property or \<^verbatim>\<open>undefined\<close>, and on every other value
  \<^verbatim>\<open>undefined\<close>, since no prototype defines one of these names.
\<close>

fun get :: "js \<Rightarrow> string \<Rightarrow> exn + js" where
  "get JUndefined k = Inl TypeError"
| "get JNull k = Inl TypeError"
| "get (JObj kvs) k = Inr (case map_of kvs k of Some v \<Rightarrow> v | None \<Rightarrow> JUndefined)"
| "get (JBool b) k = Inr JUndefined"
| "get (JNum n) k = Inr JUndefined"
| "get (JStr s) k = Inr JUndefined"
| "get (JArr vs) k = Inr JUndefined"

text \<open>
  A message event is given by what \<^verbatim>\<open>JSON.parse(event.data)\<close> does with its text:
  \<open>None\<close> when it throws its SyntaxError, \<open>Some v\<close> when it returns \<open>v\<close>.
\<close>

type_synonym frame = "js option"

definition JSON_parse :: "frame \<Rightarrow> exn + js" where
  "JSON_parse f = (case f of None \<Rightarrow> Inl SyntaxError | Some v \<Rightarrow> Inr v)"

subsection \<open>State\<close>

record MarketRadarData =
  snapshot :: js
  anomalies :: js
  tempo :: js
  timeline :: js

text \<open>
  What the hook returns. \<^verbatim>\<open>error\<close> and \<^verbatim>\<open>lastUpdate\<close> are typed
  \<^verbatim>\<open>string | null\<close>, and the handler stores in them whatever the message holds.
\<close>

record UseMarketRadarWebSocketReturn =
  data :: MarketRadarData
  isConnected :: bool
  isLoading :: bool
  error :: js
  lastUpdate :: js

datatype readyState = CONNECTING | OPEN | CLOSING | CLOSED

text \<open>
  A socket made by \<^verbatim>\<open>new WebSocket(wsUrl)\<close>. Its handlers are closures of the call of
  \<^verbatim>\<open>connect\<close> that made it, and \<^verbatim>\<open>onclose\<close> calls that same \<^verbatim>\<open>connect\<close> again:
  \<open>closure\<close> is the \<^verbatim>\<open>symbol\<close> that this \<^verbatim>\<open>connect\<close> has captured.
\<close>

record WebSocket =
  url :: string
  closure :: string
  readyState :: readyState

text \<open>
  The state of one mounted hook: the five \<^verbatim>\<open>useState\<close> values it returns, the four
  refs, the \<^verbatim>\<open>symbol\<close> of the last render, and the browser's side: every socket
  made so far (a socket is named by its index) and the timeouts that are pending, each
  with the symbol of the \<^verbatim>\<open>connect\<close> it will call. \<open>timerSeq\<close> counts the calls of
  \<^verbatim>\<open>setTimeout\<close>, whose handles are 1, 2, ...
\<close>

record hook = UseMarketRadarWebSocketReturn +
  wsRef :: "nat option"
  reconnectTimeoutRef :: "nat option"
  reconnectAttemptsRef :: nat
  mountedRef :: bool
  symbol :: string
  sockets :: "WebSocket list"
  timers :: "(nat \<times> string) list"
  timerSeq :: nat

text \<open>
  What the hook takes from its host: the environment variable read by \<^verbatim>\<open>WS_URL\<close>,
  \<^verbatim>\<open>String.prototype.toUpperCase\<close>, and whether \<^verbatim>\<open>new WebSocket(url)\<close> returns a
  socket (\<open>True\<close>) or throws.
\<close>

record host =
  NEXT_PUBLIC_WS_URL :: "string option"
  toUpperCase :: "string \<Rightarrow> string"
  constructs :: "string \<Rightarrow> bool"

subsection \<open>Constants and the connection URL\<close>

text \<open>\<^verbatim>\<open>process.env.NEXT_PUBLIC_WS_URL || 'ws://localhost:8000'\<close>: the empty string is falsy.\<close>

definition WS_URL :: "host \<Rightarrow> string" where
  "WS_URL h = (case NEXT_PUBLIC_WS_URL h of
                 None \<Rightarrow> ''ws://localhost:8000''
               | Some u \<Rightarrow> if u = [] then ''ws://localhost:8000'' else u)"

definition MAX_RECONNECT_ATTEMPTS :: nat where
  "MAX_RECONNECT_ATTEMPTS = 5"

text \<open>\<^verbatim>\<open>s.endsWith(t)\<close>: the last \<open>length t\<close> units of \<open>s\<close> are \<open>t\<close>.\<close>

definition endsWith :: "string \<Rightarrow> string \<Rightarrow> bool" where
  "endsWith s t = (length t \<le> length s \<and> drop (length s - length t) s = t)"

definition normalizedSymbol :: "host \<Rightarrow> string \<Rightarrow> string" where
  "normalizedSymbol h smb =
     (if endsWith (toUpperCase h smb) ''USDT'' then smb else smb @ ''USDT'')"

definition wsUrl :: "host \<Rightarrow> string \<Rightarrow> string" where
  "wsUrl h smb = WS_URL h @ ''/api/v1/market/radar/ws/'' @ normalizedSymbol h smb"

subsection \<open>The handlers\<close>

definition onopen :: "hook \<Rightarrow> hook" where
  "onopen w = w\<lparr>isConnected := True, isLoading := False, error := JNull,
                reconnectAttemptsRef := 0\<rparr>"

text \<open>
  The \<^verbatim>\<open>try\<close> block of \<^verbatim>\<open>onmessage\<close>: \<open>andThen\<close> passes a thrown exception on.
  The object passed to \<^verbatim>\<open>setData\<close> is built before \<^verbatim>\<open>setData\<close> is called, so a
  read that throws leaves the state as it was.
\<close>

definition andThen :: "exn + 'a \<Rightarrow> ('a \<Rightarrow> exn + 'b) \<Rightarrow> exn + 'b" where
  "andThen r k = (case r of Inl e \<Rightarrow> Inl e | Inr x \<Rightarrow> k x)"

definition onmessage_try :: "frame \<Rightarrow> hook \<Rightarrow> exn + hook" where
  "onmessage_try f w =
     andThen (JSON_parse f) (\<lambda>message.
     andThen (get message ''type'') (\<lambda>ty.
       if ty = JStr ''market_radar_update'' then
         andThen (get message ''data'') (\<lambda>d.
         andThen (get d ''snapshot'') (\<lambda>s.
         andThen (get d ''anomalies'') (\<lambda>a.
         andThen (get d ''tempo'') (\<lambda>t.
         andThen (get d ''timeline'') (\<lambda>l.
         andThen (get message ''timestamp'') (\<lambda>ts.
           Inr (w\<lparr>data := \<lparr>snapshot = s, anomalies = a, tempo = t, timeline = l\<rparr>,
                   lastUpdate := ts, error := JNull\<rparr>)))))))
       else if ty = JStr ''error'' then
         andThen (get message ''message'') (\<lambda>m. Inr (w\<lparr>error := m\<rparr>))
       else Inr w))"

text \<open>The \<^verbatim>\<open>catch\<close> only logs.\<close>

definition onmessage :: "frame \<Rightarrow> hook \<Rightarrow> hook" where
  "onmessage f w = (case onmessage_try f w of Inl e \<Rightarrow> w | Inr w' \<Rightarrow> w')"

definition onerror :: "hook \<Rightarrow> hook" where
  "onerror w = w\<lparr>error := JStr ''WebSocket connection error''\<rparr>"

text \<open>\<^verbatim>\<open>setTimeout(() => connect(), RECONNECT_DELAY)\<close> by the \<^verbatim>\<open>connect\<close> of symbol \<open>smb\<close>.\<close>

definition setTimeout :: "string \<Rightarrow> hook \<Rightarrow> hook" where
  "setTimeout smb w =
     w\<lparr>timers := timers w @ [(Suc (timerSeq w), smb)],
       reconnectTimeoutRef := Some (Suc (timerSeq w)),
       timerSeq := Suc (timerSeq w)\<rparr>"

definition onclose :: "string \<Rightarrow> hook \<Rightarrow> hook" where
  "onclose smb w =
     (let w1 = w\<lparr>isConnected := False, wsRef := None\<rparr> in
      if mountedRef w1 \<and> reconnectAttemptsRef w1 < MAX_RECONNECT_ATTEMPTS then
        setTimeout smb (w1\<lparr>reconnectAttemptsRef := Suc (reconnectAttemptsRef w1)\<rparr>)
      else if reconnectAttemptsRef w1 \<ge> MAX_RECONNECT_ATTEMPTS then
        w1\<lparr>error := JStr ''Failed to connect after multiple attempts. Please refresh the page.'',
           isLoading := False\<rparr>
      else w1)"

definition connect :: "host \<Rightarrow> string \<Rightarrow> hook \<Rightarrow> hook" where
  "connect h smb w =
     (if \<not> mountedRef w then w
      else if constructs h (wsUrl h smb) then
        w\<lparr>sockets := sockets w @ [\<lparr>url = wsUrl h smb, closure = smb, readyState = CONNECTING\<rparr>],
          wsRef := Some (length (sockets w))\<rparr>
      else
        w\<lparr>error := JStr ''Failed to establish WebSocket connection'', isLoading := False\<rparr>)"

subsection \<open>The effect and its cleanup\<close>

text \<open>\<^verbatim>\<open>clearTimeout(t)\<close> and \<^verbatim>\<open>ws.close()\<close> of the browser.\<close>

definition clearTimeout :: "nat \<Rightarrow> hook \<Rightarrow> hook" where
  "clearTimeout t w = w\<lparr>timers := filter (\<lambda>p. fst p \<noteq> t) (timers w)\<rparr>"

definition set_readyState :: "nat \<Rightarrow> readyState \<Rightarrow> hook \<Rightarrow> hook" where
  "set_readyState i r w = w\<lparr>sockets := (sockets w)[i := (sockets w ! i)\<lparr>readyState := r\<rparr>]\<rparr>"

definition ws_close :: "nat \<Rightarrow> hook \<Rightarrow> hook" where
  "ws_close i w =
     (if i < length (sockets w) \<and> readyState (sockets w ! i) \<in> {CONNECTING, OPEN}
      then set_readyState i CLOSING w else w)"

definition cleanup :: "hook \<Rightarrow> hook" where
  "cleanup w =
     (let w1 = w\<lparr>mountedRef := False\<rparr>;
          w2 = (case reconnectTimeoutRef w1 of None \<Rightarrow> w1 | Some t \<Rightarrow> clearTimeout t w1)
      in case wsRef w2 of None \<Rightarrow> w2 | Some i \<Rightarrow> (ws_close i w2)\<lparr>wsRef := None\<rparr>)"

definition effect :: "host \<Rightarrow> string \<Rightarrow> hook \<Rightarrow> hook" where
  "effect h smb w = connect h smb (w\<lparr>mountedRef := True\<rparr>)"

text \<open>The first render: the initial values of \<^verbatim>\<open>useState\<close> and \<^verbatim>\<open>useRef\<close>.\<close>

definition initial :: "string \<Rightarrow> hook" where
  "initial smb =
     \<lparr>data = \<lparr>snapshot = JNull, anomalies = JNull, tempo = JNull, timeline = JNull\<rparr>,
      isConnected = False, isLoading = True, error = JNull, lastUpdate = JNull,
      wsRef = None, reconnectTimeoutRef = None, reconnectAttemptsRef = 0,
      mountedRef = True, symbol = smb, sockets = [], timers = [], timerSeq = 0\<rparr>"

definition mount :: "host \<Rightarrow> string \<Rightarrow> hook" where
  "mount h smb = effect h smb (initial smb)"

text \<open>
  A render with another \<^verbatim>\<open>symbol\<close> gives a new \<^verbatim>\<open>connect\<close>, so the effect's cleanup
  runs and then the effect; a render with the same symbol runs neither.
\<close>

definition rerender :: "host \<Rightarrow> string \<Rightarrow> hook \<Rightarrow> hook" where
  "rerender h smb w =
     (if smb = symbol w then w else effect h smb ((cleanup w)\<lparr>symbol := smb\<rparr>))"

subsection \<open>Events\<close>

text \<open>
  What can happen to a mounted hook: its component renders with a symbol or unmounts, a
  socket fires one of its four events, a timeout fires. The browser fires \<^verbatim>\<open>open\<close> on
  a connecting socket, \<^verbatim>\<open>message\<close> on an open one, \<^verbatim>\<open>error\<close> and \<^verbatim>\<open>close\<close> on one
  that is not closed yet, and a timeout that is pending; any other event does not
  happen and leaves the state as it is.
\<close>

datatype event =
    Render string
  | Unmount
  | WsOpen nat
  | WsMessage nat frame
  | WsError nat
  | WsClose nat
  | Timeout nat

definition ready :: "hook \<Rightarrow> nat \<Rightarrow> readyState" where
  "ready w i = (if i < length (sockets w) then readyState (sockets w ! i) else CLOSED)"

fun step :: "host \<Rightarrow> hook \<Rightarrow> event \<Rightarrow> hook" where
  "step h w (Render smb) = (if mountedRef w then rerender h smb w else w)"
| "step h w Unmount = (if mountedRef w then cleanup w else w)"
| "step h w (WsOpen i) =
     (if ready w i = CONNECTING then onopen (set_readyState i OPEN w) else w)"
| "step h w (WsMessage i f) = (if ready w i = OPEN then onmessage f w else w)"
| "step h w (WsError i) = (if ready w i \<noteq> CLOSED then onerror w else w)"
| "step h w (WsClose i) =
     (if ready w i \<noteq> CLOSED
      then onclose (closure (sockets w ! i)) (set_readyState i CLOSED w) else w)"
| "step h w (Timeout t) =
     (case map_of (timers w) t of
        None \<Rightarrow> w
      | Some smb \<Rightarrow> connect h smb (clearTimeout t w))"

definition run :: "host \<Rightarrow> hook \<Rightarrow> event list \<Rightarrow> hook" where
  "run h w es = foldl (step h) w es"

text \<open>\<^verbatim>\<open>return { data, isConnected, isLoading, error, lastUpdate }\<close>\<close>

definition returned :: "hook \<Rightarrow> UseMarketRadarWebSocketReturn" where
  "returned w = UseMarketRadarWebSocketReturn.truncate w"

text \<open>The sockets that are not closed.\<close>

definition live :: "hook \<Rightarrow> nat list" where
  "live w = filter (\<lambda>i. readyState (sockets w ! i) \<noteq> CLOSED) [0..<length (sockets w)]"

text \<open>
  The state of a hook that has one subscription: it is mounted, a socket that is not
  closed is the one \<^verbatim>\<open>wsRef\<close> holds, and a timeout is pending only while every socket
  is closed, and then only one.
\<close>

definition single :: "hook \<Rightarrow> bool" where
  "single w =
     (mountedRef w \<and> (\<forall>i < length (sockets w). ready w i \<noteq> CLOSED \<longrightarrow> wsRef w = Some i) \<and>
      (timers w \<noteq> [] \<longrightarrow> (\<forall>i < length (sockets w). ready w i = CLOSED)) \<and>
      length (timers w) \<le> 1)"



subsection \<open>A host and frames for the examples\<close>

text \<open>\<^verbatim>\<open>toUpperCase\<close> on ASCII text: the letters a to z become A to Z.\<close>

definition asciiUpper :: "char \<Rightarrow> char" where
  "asciiUpper c =
     (case map_of (zip ''abcdefghijklmnopqrstuvwxyz'' ''ABCDEFGHIJKLMNOPQRSTUVWXYZ'') c of
        Some u \<Rightarrow> u | None \<Rightarrow> c)"

text \<open>A browser without \<^verbatim>\<open>NEXT_PUBLIC_WS_URL\<close> whose \<^verbatim>\<open>WebSocket\<close> constructor accepts every URL.\<close>

definition localhost :: host where
  "localhost = \<lparr>NEXT_PUBLIC_WS_URL = None, toUpperCase = map asciiUpper,
                 constructs = (\<lambda>u. True)\<rparr>"

text \<open>
  The parsed messages
  \<^verbatim>\<open>{"type":"market_radar_update","timestamp":ts,"data":{"snapshot":s,"anomalies":a,"tempo":t,"timeline":l}}\<close>
  and \<^verbatim>\<open>{"type":"error","message":msg}\<close>, and two facets.
\<close>

definition update_message :: "string \<Rightarrow> js \<Rightarrow> js \<Rightarrow> js \<Rightarrow> js \<Rightarrow> js" where
  "update_message ts s a t l =
     JObj [(''type'', JStr ''market_radar_update''), (''timestamp'', JStr ts),
           (''data'', JObj [(''snapshot'', s), (''anomalies'', a),
                            (''tempo'', t), (''timeline'', l)])]"

definition error_message :: "string \<Rightarrow> js" where
  "error_message msg = JObj [(''type'', JStr ''error''), (''message'', JStr msg)]"

definition rising :: js where
  "rising = JObj [(''momentum'', JStr ''rising''), (''newsTopic'', JStr ''etf'')]"

definition no_alerts :: js where
  "no_alerts = JObj [(''alerts'', JArr []), (''timestamp'', JStr ''2025-01-01T00:00:05Z'')]"

text \<open>
  The hook mounted for \<^verbatim>\<open>BTC\<close> whose socket has opened, and the same after a first
  update that carries a snapshot and no other facet.
\<close>

definition opened :: hook where
  "opened = run localhost (mount localhost ''BTC'') [WsOpen 0]"

definition updated :: hook where
  "updated = run localhost opened
     [WsMessage 0 (Some (update_message ''2025-01-01T00:00:00Z'' rising JNull JNull JNull))]"

text \<open>
  The hook mounted for \<^verbatim>\<open>BTC\<close> after five sockets have closed without opening and the
  fifth timeout has fired: a sixth socket is connecting.
\<close>

definition exhausted :: hook where
  "exhausted = run localhost (mount localhost ''BTC'')
     [WsClose 0, Timeout 1, WsClose 1, Timeout 2, WsClose 2, Timeout 3, WsClose 3, Timeout 4,
      WsClose 4, Timeout 5]"

subsection \<open>The two message shapes of the specification\<close>

text \<open>
  The specification recognises two shapes of frame: an object whose \<^verbatim>\<open>type\<close> is
  \<^verbatim>\<open>market_radar_update\<close>, whose \<^verbatim>\<open>timestamp\<close> is a string and whose \<^verbatim>\<open>data\<close> is an
  object with the four facets, each an object or \<^verbatim>\<open>null\<close>; and an object whose
  \<^verbatim>\<open>type\<close> is \<^verbatim>\<open>error\<close> and whose \<^verbatim>\<open>message\<close> is a string. These two predicates
  follow the specification's words, not the code, which has no such test.
\<close>

definition spec_facet :: "js option \<Rightarrow> bool" where
  "spec_facet v = (case v of Some JNull \<Rightarrow> True | Some (JObj kvs) \<Rightarrow> True | _ \<Rightarrow> False)"

definition spec_update_shape :: "js \<Rightarrow> bool" where
  "spec_update_shape m =
     (case m of
        JObj kvs \<Rightarrow>
          map_of kvs ''type'' = Some (JStr ''market_radar_update'') \<and>
          (case map_of kvs ''timestamp'' of Some (JStr ts) \<Rightarrow> True | _ \<Rightarrow> False) \<and>
          (case map_of kvs ''data'' of
             Some (JObj d) \<Rightarrow>
               spec_facet (map_of d ''snapshot'') \<and> spec_facet (map_of d ''anomalies'') \<and>
               spec_facet (map_of d ''tempo'') \<and> spec_facet (map_of d ''timeline'')
           | _ \<Rightarrow> False)
      | _ \<Rightarrow> False)"

definition spec_error_shape :: "js \<Rightarrow> bool" where
  "spec_error_shape m =
     (case m of
        JObj kvs \<Rightarrow>
          map_of kvs ''type'' = Some (JStr ''error'') \<and>
          (case map_of kvs ''message'' of Some (JStr msg) \<Rightarrow> True | _ \<Rightarrow> False)
      | _ \<Rightarrow> False)"

section \<open>Properties\<close>

subsection \<open>The message handler, case by case\<close>

lemma get_throws_iff: "(get v k = Inl e) = ((v = JNull \<or> v = JUndefined) \<and> e = TypeError)"
  by (cases v) auto

lemma get_returns: "v \<noteq> JNull \<Longrightarrow> v \<noteq> JUndefined \<Longrightarrow> \<exists>x. get v k = Inr x"
  by (cases v) auto

lemma get_total: "get v k = Inr x \<Longrightarrow> \<exists>y. get v k' = Inr y"
  by (cases v) simp_all

lemma onmessage_None: "onmessage None w = w"
  by (simp add: onmessage_def onmessage_try_def JSON_parse_def andThen_def)

lemma onmessage_caught: "onmessage_try f w = Inl e \<Longrightarrow> onmessage f w = w"
  by (simp add: onmessage_def)

lemma onmessage_error_message:
  "get m ''type'' = Inr (JStr ''error'') \<Longrightarrow> get m ''message'' = Inr v \<Longrightarrow>
   onmessage (Some m) w = w\<lparr>error := v\<rparr>"
  by (simp add: onmessage_def onmessage_try_def JSON_parse_def andThen_def)

lemma onmessage_try_update:
  "get m ''type'' = Inr (JStr ''market_radar_update'') \<Longrightarrow> get m ''data'' = Inr d \<Longrightarrow>
   get d ''snapshot'' = Inr s \<Longrightarrow> get d ''anomalies'' = Inr a \<Longrightarrow>
   get d ''tempo'' = Inr t \<Longrightarrow> get d ''timeline'' = Inr l \<Longrightarrow>
   get m ''timestamp'' = Inr ts \<Longrightarrow>
   onmessage_try (Some m) w =
     Inr (w\<lparr>data := \<lparr>snapshot = s, anomalies = a, tempo = t, timeline = l\<rparr>,
            lastUpdate := ts, error := JNull\<rparr>)"
  by (simp add: onmessage_try_def JSON_parse_def andThen_def)

lemma onmessage_update:
  assumes "get m ''type'' = Inr (JStr ''market_radar_update'')" and "get m ''data'' = Inr d"
    and "d \<noteq> JNull" and "d \<noteq> JUndefined"
  shows "\<exists>s a t l ts.
      get d ''snapshot'' = Inr s \<and> get d ''anomalies'' = Inr a \<and> get d ''tempo'' = Inr t \<and>
      get d ''timeline'' = Inr l \<and> get m ''timestamp'' = Inr ts \<and>
      onmessage (Some m) w =
        w\<lparr>data := \<lparr>snapshot = s, anomalies = a, tempo = t, timeline = l\<rparr>,
          lastUpdate := ts, error := JNull\<rparr>"
proof -
  from assms(3,4) obtain s a t l where
    d: "get d ''snapshot'' = Inr s" "get d ''anomalies'' = Inr a"
       "get d ''tempo'' = Inr t" "get d ''timeline'' = Inr l"
    by (meson get_returns)
  from assms(1) have "m \<noteq> JNull" "m \<noteq> JUndefined" by auto
  then obtain ts where ts: "get m ''timestamp'' = Inr ts" by (meson get_returns)
  from onmessage_try_update [OF assms(1,2) d ts]
  show ?thesis using d ts by (simp add: onmessage_def)
qed

lemma onmessage_update_nullish:
  "get m ''type'' = Inr (JStr ''market_radar_update'') \<Longrightarrow>
   get m ''data'' = Inr d \<Longrightarrow> d = JNull \<or> d = JUndefined \<Longrightarrow> onmessage (Some m) w = w"
  by (auto simp add: onmessage_def onmessage_try_def JSON_parse_def andThen_def)

lemma onmessage_other_type:
  "get m ''type'' = Inr ty \<Longrightarrow> ty \<noteq> JStr ''market_radar_update'' \<Longrightarrow> ty \<noteq> JStr ''error'' \<Longrightarrow>
   onmessage (Some m) w = w"
  by (simp add: onmessage_def onmessage_try_def JSON_parse_def andThen_def)

lemma onmessage_no_type:
  "get m ''type'' = Inl e \<Longrightarrow> onmessage (Some m) w = w"
  by (simp add: onmessage_def onmessage_try_def JSON_parse_def andThen_def)

subsection \<open>The connection URL\<close>

lemma endsWith_suffix: "endsWith s t = suffix t s"
proof
  assume "endsWith s t"
  then have "drop (length s - length t) s = t" by (simp add: endsWith_def)
  then show "suffix t s" by (metis suffix_drop)
next
  assume "suffix t s"
  then obtain zs where "s = zs @ t" by (auto simp: suffix_def)
  then show "endsWith s t" by (simp add: endsWith_def)
qed

text \<open>
  C10: for every symbol, the URL is the base address, the path
  \<^verbatim>\<open>/api/v1/market/radar/ws/\<close> and then the symbol as it was given when its upper-cased
  form ends with \<^verbatim>\<open>USDT\<close>, and otherwise the symbol as it was given followed by
  \<^verbatim>\<open>USDT\<close>. The symbol itself is never upper-cased: \<^verbatim>\<open>btc\<close> connects to
  \<^verbatim>\<open>btcUSDT\<close>.
\<close>

theorem wsUrl_symbol_suffix:
  "(suffix ''USDT'' (toUpperCase h smb) \<longrightarrow>
      wsUrl h smb = WS_URL h @ ''/api/v1/market/radar/ws/'' @ smb) \<and>
   (\<not> suffix ''USDT'' (toUpperCase h smb) \<longrightarrow>
      wsUrl h smb = WS_URL h @ ''/api/v1/market/radar/ws/'' @ smb @ ''USDT'')"
  by (simp add: wsUrl_def normalizedSymbol_def endsWith_suffix)

theorem wsUrl_symbol_suffix_witness:
  "\<not> suffix ''USDT'' (toUpperCase localhost ''btc'') \<and>
   wsUrl localhost ''btc'' = ''ws://localhost:8000/api/v1/market/radar/ws/btcUSDT'' \<and>
   suffix ''USDT'' (toUpperCase localhost ''ethusdt'') \<and>
   wsUrl localhost ''ethusdt'' = ''ws://localhost:8000/api/v1/market/radar/ws/ethusdt''"
proof -
  have a: "\<not> suffix ''USDT'' (toUpperCase localhost ''btc'')" by code_simp
  have b: "suffix ''USDT'' (toUpperCase localhost ''ethusdt'')" by code_simp
  have u: "WS_URL localhost = ''ws://localhost:8000''" by (simp add: WS_URL_def localhost_def)
  show ?thesis
    using a b wsUrl_symbol_suffix [of localhost "''btc''"]
      wsUrl_symbol_suffix [of localhost "''ethusdt''"]
    by (simp add: u)
qed

subsection \<open>The accumulated data\<close>

lemma data_connect: "data (connect h smb w) = data w"
  by (simp add: connect_def)

lemma data_cleanup: "data (cleanup w) = data w"
  by (simp add: cleanup_def clearTimeout_def ws_close_def set_readyState_def Let_def
      split: option.splits)

lemma data_onclose: "data (onclose smb w) = data w"
  by (simp add: onclose_def setTimeout_def Let_def)

lemma data_step_other:
  assumes "\<And>i f. e \<noteq> WsMessage i f"
  shows "data (step h w e) = data w"
proof (cases e)
  case (WsMessage i f)
  with assms show ?thesis by blast
qed (simp_all add: rerender_def effect_def data_connect data_cleanup data_onclose onopen_def
    onerror_def set_readyState_def clearTimeout_def split: option.splits)

text \<open>
  C1, as the code has it: the handler does not merge. A frame of type
  \<^verbatim>\<open>market_radar_update\<close> whose \<^verbatim>\<open>data\<close> can be read replaces all four facets by
  the four values the frame carries, so a facet is non-null afterwards exactly when the
  frame's own value for it is non-null. Every other frame, and every event that is not a
  message (a render with another key and the cleanup among them), leaves the data as it is.
\<close>

theorem update_replaces_facets:
  "(get m ''type'' = Inr (JStr ''market_radar_update'') \<longrightarrow> get m ''data'' = Inr d \<longrightarrow>
      get d ''snapshot'' = Inr s \<longrightarrow> get d ''anomalies'' = Inr a \<longrightarrow>
      get d ''tempo'' = Inr t \<longrightarrow> get d ''timeline'' = Inr l \<longrightarrow>
      data (onmessage (Some m) w) = \<lparr>snapshot = s, anomalies = a, tempo = t, timeline = l\<rparr>) \<and>
   (get m ''type'' \<noteq> Inr (JStr ''market_radar_update'') \<longrightarrow>
      data (onmessage (Some m) w) = data w) \<and>
   data (onmessage None w) = data w \<and>
   ((\<forall>i f. e \<noteq> WsMessage i f) \<longrightarrow> data (step h w e) = data w)"
proof (intro conjI impI)
  assume ty: "get m ''type'' = Inr (JStr ''market_radar_update'')" and d: "get m ''data'' = Inr d"
    and f: "get d ''snapshot'' = Inr s" "get d ''anomalies'' = Inr a"
      "get d ''tempo'' = Inr t" "get d ''timeline'' = Inr l"
  from f(1) have "d \<noteq> JNull" "d \<noteq> JUndefined" by auto
  from onmessage_update [OF ty d this, of w] f
  show "data (onmessage (Some m) w) = \<lparr>snapshot = s, anomalies = a, tempo = t, timeline = l\<rparr>"
    by auto
next
  assume n: "get m ''type'' \<noteq> Inr (JStr ''market_radar_update'')"
  show "data (onmessage (Some m) w) = data w"
  proof (cases "get m ''type''")
    case (Inl e)
    then show ?thesis by (simp add: onmessage_no_type)
  next
    case (Inr ty)
    show ?thesis
    proof (cases "ty = JStr ''error''")
      case True
      from Inr obtain v where "get m ''message'' = Inr v" by (meson get_total)
      with Inr True show ?thesis by (simp add: onmessage_error_message)
    next
      case False
      with Inr n show ?thesis by (simp add: onmessage_other_type)
    qed
  qed
next
  show "data (onmessage None w) = data w" by (simp add: onmessage_None)
next
  assume "\<forall>i f. e \<noteq> WsMessage i f"
  then show "data (step h w e) = data w" by (simp add: data_step_other)
qed

theorem update_replaces_facets_witness:
  "data (onmessage (Some (update_message ''2025-01-01T00:00:05Z'' JNull no_alerts JNull JNull))
           updated)
     = \<lparr>snapshot = JNull, anomalies = no_alerts, tempo = JNull, timeline = JNull\<rparr> \<and>
   data (onmessage (Some (error_message ''boom'')) updated) = data updated \<and>
   data (step localhost updated (WsClose 0)) = data updated"
proof -
  let ?d = "JObj [(''snapshot'', JNull), (''anomalies'', no_alerts),
                  (''tempo'', JNull), (''timeline'', JNull)]"
  let ?m = "update_message ''2025-01-01T00:00:05Z'' JNull no_alerts JNull JNull"
  have m: "get ?m ''type'' = Inr (JStr ''market_radar_update'')" "get ?m ''data'' = Inr ?d"
    by (simp_all add: update_message_def)
  have d: "get ?d ''snapshot'' = Inr JNull" "get ?d ''anomalies'' = Inr no_alerts"
    "get ?d ''tempo'' = Inr JNull" "get ?d ''timeline'' = Inr JNull"
    by simp_all
  have e: "get (error_message ''boom'') ''type'' \<noteq> Inr (JStr ''market_radar_update'')"
    by (simp add: error_message_def)
  have c: "\<forall>i f. WsClose 0 \<noteq> WsMessage i f" by simp
  show ?thesis
    using m d e c
      update_replaces_facets [where m = ?m and d = ?d and w = updated]
      update_replaces_facets [where m = "error_message ''boom''" and w = updated]
      update_replaces_facets [where e = "WsClose 0" and w = updated and h = localhost]
    by simp
qed

text \<open>
  C1 as stated fails: after an update with a snapshot, an update whose \<^verbatim>\<open>snapshot\<close>
  is \<^verbatim>\<open>null\<close> (and which carries anomalies) sets the held snapshot back to null.
\<close>

theorem facet_reset_counterexample:
  "snapshot (data updated) = rising \<and> rising \<noteq> JNull \<and>
   snapshot (data (run localhost updated
     [WsMessage 0 (Some (update_message ''2025-01-01T00:00:05Z'' JNull no_alerts JNull JNull))]))
     = JNull"
  by code_simp

subsection \<open>The error string\<close>

text \<open>
  C7: the error is set to the message of a frame of type \<^verbatim>\<open>error\<close> whose message is a
  string, it is set to the fixed text when a socket closes with the attempts used up, and
  it is null after a socket opens.
\<close>

theorem error_set_and_cleared:
  "(ready w i = OPEN \<longrightarrow> get m ''type'' = Inr (JStr ''error'') \<longrightarrow>
      get m ''message'' = Inr (JStr msg) \<longrightarrow>
      error (step h w (WsMessage i (Some m))) = JStr msg) \<and>
   (ready w i \<noteq> CLOSED \<longrightarrow> MAX_RECONNECT_ATTEMPTS \<le> reconnectAttemptsRef w \<longrightarrow>
      error (step h w (WsClose i)) =
        JStr ''Failed to connect after multiple attempts. Please refresh the page.'') \<and>
   (ready w i = CONNECTING \<longrightarrow> error (step h w (WsOpen i)) = JNull)"
  by (simp add: onmessage_error_message onclose_def onopen_def set_readyState_def Let_def)

theorem error_set_and_cleared_witness:
  "error (step localhost opened (WsMessage 0 (Some (error_message ''rate limited''))))
     = JStr ''rate limited'' \<and>
   error (step localhost exhausted (WsClose 5)) =
     JStr ''Failed to connect after multiple attempts. Please refresh the page.'' \<and>
   error (step localhost (step localhost (mount localhost ''BTC'') (WsError 0)) (WsOpen 0))
     = JNull"
proof -
  have a: "ready opened 0 = OPEN" by code_simp
  have b: "get (error_message ''rate limited'') ''type'' = Inr (JStr ''error'')"
    "get (error_message ''rate limited'') ''message'' = Inr (JStr ''rate limited'')"
    by (simp_all add: error_message_def)
  have c: "ready exhausted 5 \<noteq> CLOSED" "MAX_RECONNECT_ATTEMPTS \<le> reconnectAttemptsRef exhausted"
    by code_simp+
  have d: "ready (step localhost (mount localhost ''BTC'') (WsError 0)) 0 = CONNECTING"
    by code_simp
  show ?thesis
    using a b c d
      error_set_and_cleared [where w = opened and i = 0 and h = localhost
        and m = "error_message ''rate limited''" and msg = "''rate limited''"]
      error_set_and_cleared [where w = exhausted and i = 5 and h = localhost]
      error_set_and_cleared [where w = "step localhost (mount localhost ''BTC'') (WsError 0)"
        and i = 0 and h = localhost]
    by simp
qed

text \<open>
  C9, as the code has it: on the open socket it arrives on, a frame of type
  \<^verbatim>\<open>market_radar_update\<close> whose \<^verbatim>\<open>data\<close> is neither missing nor null sets the
  error to null, so a server-reported error is cleared by the next such update and not
  only by the next open. A frame of that type whose \<^verbatim>\<open>data\<close> is missing or null
  throws inside the \<^verbatim>\<open>try\<close> block before \<^verbatim>\<open>setError(null)\<close> is reached, and leaves the
  whole state, the error included, as it was.
\<close>

theorem update_clears_error:
  assumes "ready w i = OPEN" and "get m ''type'' = Inr (JStr ''market_radar_update'')"
    and "get m ''data'' = Inr d"
  shows "(d \<noteq> JNull \<and> d \<noteq> JUndefined \<longrightarrow> error (step h w (WsMessage i (Some m))) = JNull) \<and>
         (d = JNull \<or> d = JUndefined \<longrightarrow> step h w (WsMessage i (Some m)) = w)"
proof (intro conjI impI)
  assume "d \<noteq> JNull \<and> d \<noteq> JUndefined"
  with onmessage_update [OF assms(2,3), of w] assms(1)
  show "error (step h w (WsMessage i (Some m))) = JNull" by auto
next
  assume "d = JNull \<or> d = JUndefined"
  with onmessage_update_nullish [OF assms(2,3), of w] assms(1)
  show "step h w (WsMessage i (Some m)) = w" by simp
qed

theorem update_clears_error_witness:
  "error (step localhost opened (WsMessage 0 (Some (error_message ''rate limited''))))
     = JStr ''rate limited'' \<and>
   error (step localhost (step localhost opened (WsMessage 0 (Some (error_message ''rate limited''))))
            (WsMessage 0 (Some (update_message ''2025-01-01T00:00:00Z'' rising JNull JNull JNull))))
     = JNull \<and>
   step localhost (step localhost opened (WsMessage 0 (Some (error_message ''rate limited''))))
     (WsMessage 0 (Some (JObj [(''type'', JStr ''market_radar_update''), (''data'', JNull)])))
     = step localhost opened (WsMessage 0 (Some (error_message ''rate limited'')))"
proof -
  let ?w = "step localhost opened (WsMessage 0 (Some (error_message ''rate limited'')))"
  let ?m = "update_message ''2025-01-01T00:00:00Z'' rising JNull JNull JNull"
  let ?d = "JObj [(''snapshot'', rising), (''anomalies'', JNull),
                  (''tempo'', JNull), (''timeline'', JNull)]"
  let ?n = "JObj [(''type'', JStr ''market_radar_update''), (''data'', JNull)]"
  have a: "ready ?w 0 = OPEN" by code_simp
  have b: "error ?w = JStr ''rate limited''" by code_simp
  have m: "get ?m ''type'' = Inr (JStr ''market_radar_update'')" "get ?m ''data'' = Inr ?d"
    by (simp_all add: update_message_def)
  have n: "get ?n ''type'' = Inr (JStr ''market_radar_update'')" "get ?n ''data'' = Inr JNull"
    by simp_all
  from update_clears_error [OF a m, of localhost] update_clears_error [OF a n, of localhost] b
  show ?thesis by simp
qed

text \<open>
  C9 as stated fails: \<^verbatim>\<open>{"type":"market_radar_update","timestamp":"2025-01-01T00:00:05Z"}\<close>
  is valid JSON of type \<^verbatim>\<open>market_radar_update\<close>, and after it the error reported by
  the server before is still shown.
\<close>

theorem update_without_data_counterexample:
  "get (JObj [(''type'', JStr ''market_radar_update''),
              (''timestamp'', JStr ''2025-01-01T00:00:05Z'')]) ''type''
     = Inr (JStr ''market_radar_update'') \<and>
   ready (run localhost opened [WsMessage 0 (Some (error_message ''rate limited''))]) 0 = OPEN \<and>
   error (run localhost opened [WsMessage 0 (Some (error_message ''rate limited''))])
     = JStr ''rate limited'' \<and>
   error (run localhost opened
     [WsMessage 0 (Some (error_message ''rate limited'')),
      WsMessage 0 (Some (JObj [(''type'', JStr ''market_radar_update''),
                               (''timestamp'', JStr ''2025-01-01T00:00:05Z'')]))])
     = JStr ''rate limited''"
  by code_simp

subsection \<open>Frames that are dropped\<close>

text \<open>
  C8, as the code has it: the handler returns with the whole state unchanged (the five
  returned values, the refs and the sockets) for a frame that is not valid JSON, for any
  frame on which the \<^verbatim>\<open>try\<close> block throws, for a frame that parses to \<^verbatim>\<open>null\<close>,
  for a frame whose \<^verbatim>\<open>type\<close> is neither of the two strings, and for a frame of type
  \<^verbatim>\<open>market_radar_update\<close> whose \<^verbatim>\<open>data\<close> is missing or null. Nothing is thrown
  past the handler: the \<^verbatim>\<open>catch\<close> covers its whole body.
\<close>

theorem malformed_frame_dropped:
  "step h w (WsMessage i None) = w \<and>
   (onmessage_try f w = Inl e \<longrightarrow> step h w (WsMessage i f) = w) \<and>
   (get m ''type'' = Inl e \<longrightarrow> step h w (WsMessage i (Some m)) = w) \<and>
   (get m ''type'' = Inr ty \<longrightarrow> ty \<noteq> JStr ''market_radar_update'' \<longrightarrow> ty \<noteq> JStr ''error'' \<longrightarrow>
      step h w (WsMessage i (Some m)) = w) \<and>
   (get m ''type'' = Inr (JStr ''market_radar_update'') \<longrightarrow> get m ''data'' = Inr d \<longrightarrow>
      d = JNull \<or> d = JUndefined \<longrightarrow> step h w (WsMessage i (Some m)) = w)"
  by (simp add: onmessage_None onmessage_caught onmessage_no_type onmessage_other_type
      onmessage_update_nullish)

theorem malformed_frame_dropped_witness:
  "step localhost updated (WsMessage 0 None) = updated \<and>
   step localhost updated (WsMessage 0 (Some JNull)) = updated \<and>
   step localhost updated (WsMessage 0 (Some (JStr ''ping''))) = updated \<and>
   step localhost updated (WsMessage 0 (Some (JObj [(''type'', JStr ''heartbeat'')]))) = updated \<and>
   step localhost updated (WsMessage 0 (Some (JObj [(''type'', JStr ''market_radar_update'')])))
     = updated \<and>
   step localhost updated
     (WsMessage 0 (Some (JObj [(''type'', JStr ''market_radar_update''), (''data'', JNull)])))
     = updated"
proof -
  have a: "get JNull ''type'' = Inl TypeError" by simp
  have b: "get (JStr ''ping'') ''type'' = Inr JUndefined" by simp
  have c: "get (JObj [(''type'', JStr ''heartbeat'')]) ''type'' = Inr (JStr ''heartbeat'')" by simp
  have d: "get (JObj [(''type'', JStr ''market_radar_update'')]) ''type''
             = Inr (JStr ''market_radar_update'')"
    "get (JObj [(''type'', JStr ''market_radar_update'')]) ''data'' = Inr JUndefined"
    by simp_all
  have e: "get (JObj [(''type'', JStr ''market_radar_update''), (''data'', JNull)]) ''type''
             = Inr (JStr ''market_radar_update'')"
    "get (JObj [(''type'', JStr ''market_radar_update''), (''data'', JNull)]) ''data'' = Inr JNull"
    by simp_all
  have 1: "step localhost updated (WsMessage 0 None) = updated"
    using malformed_frame_dropped [of localhost updated 0] by simp
  have 2: "step localhost updated (WsMessage 0 (Some JNull)) = updated"
    using a malformed_frame_dropped [where m = JNull and e = TypeError] by blast
  have 3: "step localhost updated (WsMessage 0 (Some (JStr ''ping''))) = updated"
    using b malformed_frame_dropped [where m = "JStr ''ping''" and ty = JUndefined] by simp
  have 4: "step localhost updated (WsMessage 0 (Some (JObj [(''type'', JStr ''heartbeat'')])))
             = updated"
    using c malformed_frame_dropped [where m = "JObj [(''type'', JStr ''heartbeat'')]"
        and ty = "JStr ''heartbeat''"] by simp
  have 5: "step localhost updated
             (WsMessage 0 (Some (JObj [(''type'', JStr ''market_radar_update'')]))) = updated"
    using d malformed_frame_dropped [where m = "JObj [(''type'', JStr ''market_radar_update'')]"
        and d = JUndefined] by simp
  have 6: "step localhost updated
     (WsMessage 0 (Some (JObj [(''type'', JStr ''market_radar_update''), (''data'', JNull)])))
     = updated"
    using e malformed_frame_dropped
      [where m = "JObj [(''type'', JStr ''market_radar_update''), (''data'', JNull)]"
        and d = JNull] by simp
  from 1 2 3 4 5 6 show ?thesis by blast
qed

text \<open>
  C8 as stated fails for a frame that matches neither shape and yet has one of the two
  types: \<^verbatim>\<open>{"type":"market_radar_update","data":{}}\<close> has no timestamp and no facet,
  and the handler replaces the held snapshot and the time of the last update by
  \<^verbatim>\<open>undefined\<close>.
\<close>

theorem unrecognised_frame_counterexample:
  "\<not> spec_update_shape (JObj [(''type'', JStr ''market_radar_update''), (''data'', JObj [])]) \<and>
   \<not> spec_error_shape (JObj [(''type'', JStr ''market_radar_update''), (''data'', JObj [])]) \<and>
   snapshot (data updated) = rising \<and>
   lastUpdate updated = JStr ''2025-01-01T00:00:00Z'' \<and>
   snapshot (data (step localhost updated
     (WsMessage 0 (Some (JObj [(''type'', JStr ''market_radar_update''), (''data'', JObj [])])))))
     = JUndefined \<and>
   lastUpdate (step localhost updated
     (WsMessage 0 (Some (JObj [(''type'', JStr ''market_radar_update''), (''data'', JObj [])]))))
     = JUndefined"
  by code_simp

subsection \<open>The loading flag\<close>

lemma returned_eq:
  "(returned w = returned w') =
   (data w = data w' \<and> isConnected w = isConnected w' \<and> isLoading w = isLoading w' \<and>
    error w = error w' \<and> lastUpdate w = lastUpdate w')"
  by (auto simp add: returned_def UseMarketRadarWebSocketReturn.truncate_def)

lemma isLoading_onmessage: "isLoading (onmessage f w) = isLoading w"
  by (simp add: onmessage_def onmessage_try_def andThen_def split: sum.splits if_splits)

lemma isLoading_cleanup: "isLoading (cleanup w) = isLoading w"
  by (simp add: cleanup_def clearTimeout_def ws_close_def set_readyState_def Let_def
      split: option.splits)

lemma isLoading_connect: "isLoading (connect h smb w) \<Longrightarrow> isLoading w"
  by (simp add: connect_def split: if_splits)

lemma isLoading_onclose: "isLoading (onclose smb w) \<Longrightarrow> isLoading w"
  by (simp add: onclose_def setTimeout_def Let_def split: if_splits)

lemma isLoading_step: "isLoading (step h w e) \<Longrightarrow> isLoading w"
proof (cases e)
  case (Render smb)
  assume "isLoading (step h w e)"
  with Render show ?thesis
    by (auto simp add: rerender_def effect_def isLoading_cleanup split: if_splits
        dest!: isLoading_connect)
next
  case (WsClose i)
  assume "isLoading (step h w e)"
  with WsClose show ?thesis
    by (auto simp add: set_readyState_def split: if_splits dest!: isLoading_onclose)
next
  case (Timeout t)
  assume "isLoading (step h w e)"
  with Timeout show ?thesis
    by (auto simp add: clearTimeout_def split: option.splits dest!: isLoading_connect)
qed (auto simp add: isLoading_cleanup isLoading_onmessage onopen_def onerror_def
    set_readyState_def split: if_splits)

lemma isLoading_run: "isLoading (run h w es) \<Longrightarrow> isLoading w"
  unfolding run_def
  by (induction es arbitrary: w) (auto dest: isLoading_step)

text \<open>
  C5, as the code has it: the flag starts true; a socket that opens, a close that finds
  the attempts used up, and a constructor that throws set it to false; nothing sets it
  to true, so once false it stays false through every later event, a render with another
  key included. A close that schedules a reconnect leaves the flag as it is, so the flag
  is still true during the reconnects that come before the first open.
\<close>

theorem isLoading_only_falls:
  "isLoading (initial smb) \<and>
   (ready w i = CONNECTING \<longrightarrow> \<not> isLoading (step h w (WsOpen i))) \<and>
   (ready w i \<noteq> CLOSED \<longrightarrow> MAX_RECONNECT_ATTEMPTS \<le> reconnectAttemptsRef w \<longrightarrow>
      \<not> isLoading (step h w (WsClose i))) \<and>
   (mountedRef w \<longrightarrow> \<not> constructs h (wsUrl h smb) \<longrightarrow> \<not> isLoading (connect h smb w)) \<and>
   (\<not> isLoading w \<longrightarrow> \<not> isLoading (run h w es)) \<and>
   (ready w i \<noteq> CLOSED \<longrightarrow> mountedRef w \<longrightarrow> reconnectAttemptsRef w < MAX_RECONNECT_ATTEMPTS \<longrightarrow>
      isLoading (step h w (WsClose i)) = isLoading w)"
  by (auto simp add: initial_def onopen_def onclose_def setTimeout_def connect_def
      set_readyState_def Let_def dest: isLoading_run)

theorem isLoading_only_falls_witness:
  "isLoading (initial ''BTC'') \<and>
   \<not> isLoading (step localhost (mount localhost ''BTC'') (WsOpen 0)) \<and>
   \<not> isLoading (step localhost exhausted (WsClose 5)) \<and>
   \<not> isLoading (connect (localhost\<lparr>constructs := \<lambda>u. False\<rparr>) ''BTC'' (initial ''BTC'')) \<and>
   \<not> isLoading (run localhost opened [WsClose 0, Timeout 1, Render ''ETH'']) \<and>
   isLoading (step localhost (mount localhost ''BTC'') (WsClose 0))"
proof -
  let ?w = "mount localhost ''BTC''"
  have a: "ready ?w 0 = CONNECTING" "ready ?w 0 \<noteq> CLOSED" "mountedRef ?w"
    "reconnectAttemptsRef ?w < MAX_RECONNECT_ATTEMPTS" "isLoading ?w"
    by code_simp+
  have b: "ready exhausted 5 \<noteq> CLOSED" "MAX_RECONNECT_ATTEMPTS \<le> reconnectAttemptsRef exhausted"
    by code_simp+
  have c: "mountedRef (initial ''BTC'')"
    "\<not> constructs (localhost\<lparr>constructs := \<lambda>u. False\<rparr>)
        (wsUrl (localhost\<lparr>constructs := \<lambda>u. False\<rparr>) ''BTC'')"
    by (simp_all add: initial_def)
  have d: "\<not> isLoading opened" by code_simp
  note T = isLoading_only_falls
  have 1: "isLoading (initial ''BTC'')"
    by (rule T [THEN conjunct1])
  have 2: "\<not> isLoading (step localhost ?w (WsOpen 0))"
    by (rule T [THEN conjunct2, THEN conjunct1, rule_format, OF a(1)])
  have 3: "\<not> isLoading (step localhost exhausted (WsClose 5))"
    by (rule T [THEN conjunct2, THEN conjunct2, THEN conjunct1, rule_format, OF b])
  have 4: "\<not> isLoading (connect (localhost\<lparr>constructs := \<lambda>u. False\<rparr>) ''BTC'' (initial ''BTC''))"
    by (rule T [THEN conjunct2, THEN conjunct2, THEN conjunct2, THEN conjunct1, rule_format,
          OF c])
  have 5: "\<not> isLoading (run localhost opened [WsClose 0, Timeout 1, Render ''ETH''])"
    by (rule T [THEN conjunct2, THEN conjunct2, THEN conjunct2, THEN conjunct2, THEN conjunct1,
          rule_format, OF d])
  have "isLoading (step localhost ?w (WsClose 0)) = isLoading ?w"
    by (rule T [THEN conjunct2, THEN conjunct2, THEN conjunct2, THEN conjunct2, THEN conjunct2,
          rule_format, OF a(2,3,4)])
  then have 6: "isLoading (step localhost ?w (WsClose 0))"
    using a(5) by (rule iffD2)
  show ?thesis by (intro conjI; fact)
qed

text \<open>
  C5 as stated fails: when the first socket closes before it has opened, the flag is
  true while the first reconnect is connecting.
\<close>

theorem isLoading_reconnect_counterexample:
  "isLoading (run localhost (mount localhost ''BTC'') [WsClose 0, Timeout 1]) \<and>
   reconnectAttemptsRef (run localhost (mount localhost ''BTC'') [WsClose 0, Timeout 1]) = 1 \<and>
   ready (run localhost (mount localhost ''BTC'') [WsClose 0, Timeout 1]) 0 = CLOSED \<and>
   ready (run localhost (mount localhost ''BTC'') [WsClose 0, Timeout 1]) 1 = CONNECTING"
  by code_simp

subsection \<open>The cleanup and the liveness flag\<close>

lemma cleanup_idem: "cleanup (cleanup w) = cleanup w"
  by (cases "reconnectTimeoutRef w"; cases "wsRef w")
    (simp_all add: cleanup_def clearTimeout_def ws_close_def set_readyState_def Let_def)

lemma cleanup_timer: "reconnectTimeoutRef w = Some t \<Longrightarrow> map_of (timers (cleanup w)) t = None"
  by (cases "wsRef w")
    (auto simp add: cleanup_def clearTimeout_def ws_close_def set_readyState_def Let_def
      map_of_eq_None_iff)

lemma cleanup_socket:
  "wsRef w = Some i \<Longrightarrow> ready (cleanup w) i \<noteq> CONNECTING \<and> ready (cleanup w) i \<noteq> OPEN"
  by (cases "reconnectTimeoutRef w")
    (auto simp add: cleanup_def clearTimeout_def ws_close_def set_readyState_def Let_def ready_def)

lemma connect_unmounted: "\<not> mountedRef w \<Longrightarrow> connect h smb w = w"
  by (simp add: connect_def)

text \<open>
  C3, as the code has it: the cleanup is idempotent; it sets the liveness flag to false,
  cancels the timeout that \<^verbatim>\<open>reconnectTimeoutRef\<close> holds and closes the socket that
  \<^verbatim>\<open>wsRef\<close> holds. While the flag is false, \<^verbatim>\<open>connect\<close> does nothing, a timeout
  that fires changes none of the returned values and makes no socket, and \<^verbatim>\<open>onclose\<close>
  schedules no reconnect. The other callbacks do not read the flag: whatever it is,
  \<^verbatim>\<open>onopen\<close> and \<^verbatim>\<open>onclose\<close> write \<^verbatim>\<open>isConnected\<close> and \<^verbatim>\<open>onerror\<close> writes the
  error.
\<close>

theorem cleanup_and_liveness:
  "cleanup (cleanup w) = cleanup w \<and>
   \<not> mountedRef (cleanup w) \<and> wsRef (cleanup w) = None \<and>
   (reconnectTimeoutRef w = Some t \<longrightarrow> map_of (timers (cleanup w)) t = None) \<and>
   (wsRef w = Some i \<longrightarrow> ready (cleanup w) i \<noteq> CONNECTING \<and> ready (cleanup w) i \<noteq> OPEN) \<and>
   (\<not> mountedRef w \<longrightarrow>
      connect h smb w = w \<and>
      returned (step h w (Timeout t')) = returned w \<and>
      sockets (step h w (Timeout t')) = sockets w \<and>
      timers (onclose smb w) = timers w) \<and>
   isConnected (onopen w) \<and> \<not> isConnected (onclose smb w) \<and>
   error (onerror w) = JStr ''WebSocket connection error''"
proof -
  have 1: "\<not> mountedRef (cleanup w) \<and> wsRef (cleanup w) = None"
    by (simp add: cleanup_def clearTimeout_def ws_close_def set_readyState_def Let_def
        split: option.splits)
  have 2: "returned (step h w (Timeout t')) = returned w \<and>
           sockets (step h w (Timeout t')) = sockets w" if "\<not> mountedRef w"
    using that
    by (simp add: connect_def clearTimeout_def returned_eq split: option.splits)
  have 3: "timers (onclose smb w) = timers w" if "\<not> mountedRef w"
    using that by (simp add: onclose_def Let_def)
  have 4: "isConnected (onopen w) \<and> \<not> isConnected (onclose smb w) \<and>
           error (onerror w) = JStr ''WebSocket connection error''"
    by (simp add: onopen_def onclose_def onerror_def setTimeout_def Let_def)
  from 1 2 3 4 show ?thesis
    by (simp add: cleanup_idem cleanup_timer cleanup_socket connect_unmounted)
qed

theorem cleanup_and_liveness_witness:
  "cleanup (cleanup opened) = cleanup opened \<and>
   \<not> mountedRef (cleanup opened) \<and> wsRef (cleanup opened) = None \<and>
   map_of (timers (cleanup (step localhost opened (WsClose 0)))) 1 = None \<and>
   ready (cleanup opened) 0 \<noteq> CONNECTING \<and> ready (cleanup opened) 0 \<noteq> OPEN \<and>
   connect localhost ''BTC'' (cleanup opened) = cleanup opened \<and>
   timers (onclose ''BTC'' (cleanup opened)) = timers (cleanup opened) \<and>
   \<not> isConnected (onclose ''BTC'' (cleanup opened)) \<and>
   error (onerror (cleanup opened)) = JStr ''WebSocket connection error''"
proof -
  have a: "reconnectTimeoutRef (step localhost opened (WsClose 0)) = Some 1" by code_simp
  have b: "wsRef opened = Some 0" by code_simp
  have c: "\<not> mountedRef (cleanup opened)" by code_simp
  show ?thesis
    using a b c
      cleanup_and_liveness [where w = opened and i = 0]
      cleanup_and_liveness [where w = "step localhost opened (WsClose 0)" and t = 1]
      cleanup_and_liveness [where w = "cleanup opened" and h = localhost and smb = "''BTC''"]
    by simp
qed

text \<open>
  C3 as stated fails: after the cleanup of a key change, the close event of the socket
  that the cleanup has closed sets \<^verbatim>\<open>isConnected\<close> to false, and the error event of a
  socket closed while it was connecting sets the error.
\<close>

theorem stale_callback_counterexample:
  "isConnected (run localhost opened [Render ''ETH'']) \<and>
   ready (run localhost opened [Render ''ETH'']) 0 = CLOSING \<and>
   \<not> isConnected (run localhost opened [Render ''ETH'', WsClose 0]) \<and>
   error (run localhost (mount localhost ''BTC'') [Render ''ETH'']) = JNull \<and>
   ready (run localhost (mount localhost ''BTC'') [Render ''ETH'']) 0 = CLOSING \<and>
   error (run localhost (mount localhost ''BTC'') [Render ''ETH'', WsError 0])
     = JStr ''WebSocket connection error''"
  by code_simp

subsection \<open>A render with another key\<close>

lemma sockets_cleanup_length: "length (sockets (cleanup w)) = length (sockets w)"
  by (simp add: cleanup_def clearTimeout_def ws_close_def set_readyState_def Let_def
      split: option.splits)

lemma returned_cleanup: "returned (cleanup w) = returned w"
  by (simp add: returned_eq cleanup_def clearTimeout_def ws_close_def set_readyState_def Let_def
      split: option.splits)

lemma reconnectAttemptsRef_cleanup: "reconnectAttemptsRef (cleanup w) = reconnectAttemptsRef w"
  by (simp add: cleanup_def clearTimeout_def ws_close_def set_readyState_def Let_def
      split: option.splits)

text \<open>
  C6, as the code has it: when a mounted hook renders with another key, the cleanup runs
  first and makes no socket: it closes the socket that \<^verbatim>\<open>wsRef\<close> holds and cancels the
  timeout that \<^verbatim>\<open>reconnectTimeoutRef\<close> holds. Only then is the socket for the new key
  made, after the sockets the cleanup has left. The five returned values, the data among
  them, and the count of attempts are carried over as they were: nothing is reset.
\<close>

theorem rerender_closes_then_connects:
  assumes "mountedRef w" and "smb \<noteq> symbol w" and "constructs h (wsUrl h smb)"
  shows "length (sockets (cleanup w)) = length (sockets w) \<and>
   (wsRef w = Some i \<longrightarrow> ready (cleanup w) i \<noteq> CONNECTING \<and> ready (cleanup w) i \<noteq> OPEN) \<and>
   (reconnectTimeoutRef w = Some t \<longrightarrow> map_of (timers (cleanup w)) t = None) \<and>
   sockets (step h w (Render smb)) =
     sockets (cleanup w) @ [\<lparr>url = wsUrl h smb, closure = smb, readyState = CONNECTING\<rparr>] \<and>
   timers (step h w (Render smb)) = timers (cleanup w) \<and>
   wsRef (step h w (Render smb)) = Some (length (sockets w)) \<and>
   returned (step h w (Render smb)) = returned w \<and>
   reconnectAttemptsRef (step h w (Render smb)) = reconnectAttemptsRef w"
proof -
  have s: "step h w (Render smb) = connect h smb ((cleanup w)\<lparr>symbol := smb, mountedRef := True\<rparr>)"
    using assms(1,2) by (simp add: rerender_def effect_def)
  have r: "returned (connect h smb ((cleanup w)\<lparr>symbol := smb, mountedRef := True\<rparr>))
             = returned w"
    using returned_cleanup [of w] assms(3) by (simp add: connect_def returned_eq)
  show ?thesis
    unfolding s using assms(3) r
    by (simp add: connect_def sockets_cleanup_length cleanup_socket cleanup_timer
        reconnectAttemptsRef_cleanup)
qed

theorem rerender_closes_then_connects_witness:
  "ready (cleanup opened) 0 = CLOSING \<and>
   sockets (step localhost opened (Render ''ETH'')) =
     sockets (cleanup opened) @
       [\<lparr>url = ''ws://localhost:8000/api/v1/market/radar/ws/ETHUSDT'', closure = ''ETH'',
         readyState = CONNECTING\<rparr>] \<and>
   wsRef (step localhost opened (Render ''ETH'')) = Some 1 \<and>
   returned (step localhost opened (Render ''ETH'')) = returned opened \<and>
   timers (step localhost opened (WsClose 0)) = [(1, ''BTC'')] \<and>
   timers (step localhost (step localhost opened (WsClose 0)) (Render ''ETH'')) = []"
proof -
  let ?v = "step localhost opened (WsClose 0)"
  have a: "mountedRef opened" "''ETH'' \<noteq> symbol opened"
    "constructs localhost (wsUrl localhost ''ETH'')" "wsRef opened = Some 0"
    by code_simp+
  have b: "mountedRef ?v" "''ETH'' \<noteq> symbol ?v" "reconnectTimeoutRef ?v = Some 1"
    by code_simp+
  have c: "ready (cleanup opened) 0 = CLOSING" "length (sockets opened) = 1"
    "wsUrl localhost ''ETH'' = ''ws://localhost:8000/api/v1/market/radar/ws/ETHUSDT''"
    "timers ?v = [(1, ''BTC'')]" "timers (cleanup ?v) = []"
    by code_simp+
  show ?thesis
    using c rerender_closes_then_connects [OF a(1,2,3), of 0]
      rerender_closes_then_connects [OF b(1,2) a(3), of _ 1]
    by simp
qed

text \<open>
  C6 as stated fails in its last part: after the key changes from \<^verbatim>\<open>BTC\<close> to
  \<^verbatim>\<open>ETH\<close>, the snapshot received for \<^verbatim>\<open>BTC\<close> is still held.
\<close>

theorem data_kept_counterexample:
  "snapshot (data (run localhost updated [Render ''ETH''])) = rising \<and> rising \<noteq> JNull \<and>
   symbol (run localhost updated [Render ''ETH'']) = ''ETH'' \<and>
   sockets (run localhost updated [Render ''ETH'']) =
     [\<lparr>url = ''ws://localhost:8000/api/v1/market/radar/ws/BTCUSDT'', closure = ''BTC'',
       readyState = CLOSING\<rparr>,
      \<lparr>url = ''ws://localhost:8000/api/v1/market/radar/ws/ETHUSDT'', closure = ''ETH'',
       readyState = CONNECTING\<rparr>]"
  by code_simp

subsection \<open>Sockets that are not closed\<close>

lemma ready_beyond: "length (sockets w) \<le> i \<Longrightarrow> ready w i = CLOSED"
  by (simp add: ready_def)



lemma browser_onmessage:
  "sockets (onmessage f w) = sockets w \<and> timers (onmessage f w) = timers w \<and>
   wsRef (onmessage f w) = wsRef w \<and> mountedRef (onmessage f w) = mountedRef w"
  by (simp add: onmessage_def onmessage_try_def andThen_def split: sum.splits if_splits)

lemma ready_connect:
  "ready (connect h smb w) j =
     (if mountedRef w \<and> constructs h (wsUrl h smb) \<and> j = length (sockets w) then CONNECTING
      else ready w j)"
  by (simp add: ready_def connect_def nth_append)

lemma set_live: "set (live w) = {i. ready w i \<noteq> CLOSED}"
  by (auto simp add: live_def ready_def)

lemma distinct_live: "distinct (live w)"
  by (simp add: live_def)

lemma live_connect:
  assumes "mountedRef w" and "constructs h (wsUrl h smb)"
  shows "live (connect h smb w) = live w @ [length (sockets w)]"
proof -
  let ?s = "\<lparr>url = wsUrl h smb, closure = smb, readyState = CONNECTING\<rparr>"
  have "filter (\<lambda>i. readyState ((sockets w @ [?s]) ! i) \<noteq> CLOSED) [0..<length (sockets w)]
      = filter (\<lambda>i. readyState (sockets w ! i) \<noteq> CLOSED) [0..<length (sockets w)]"
    by (rule filter_cong) (simp_all add: nth_append)
  with assms show ?thesis by (simp add: live_def connect_def)
qed

lemma single_mount: "single (mount h smb)"
  by (simp add: single_def mount_def effect_def initial_def connect_def ready_def)

lemma single_closed_but:
  assumes "single w" and "ready w i \<noteq> CLOSED" and "j \<noteq> i"
  shows "ready w j = CLOSED"
proof (rule ccontr)
  assume j: "ready w j \<noteq> CLOSED"
  from assms(2) have "i < length (sockets w)" by (auto simp add: ready_def split: if_splits)
  with assms(1,2) have "wsRef w = Some i" by (simp add: single_def)
  moreover from j have "j < length (sockets w)" by (auto simp add: ready_def split: if_splits)
  with assms(1) j have "wsRef w = Some j" by (simp add: single_def)
  ultimately show False using assms(3) by simp
qed

lemma single_no_timer:
  assumes "single w" and "ready w i \<noteq> CLOSED"
  shows "timers w = []"
proof (rule ccontr)
  assume "timers w \<noteq> []"
  moreover from assms(2) have "i < length (sockets w)"
    by (auto simp add: ready_def split: if_splits)
  ultimately have "ready w i = CLOSED" using assms(1) by (simp add: single_def)
  with assms(2) show False by simp
qed

lemma singleI:
  assumes "mountedRef w"
    and "\<And>i. ready w i \<noteq> CLOSED \<Longrightarrow> wsRef w = Some i"
    and "timers w \<noteq> [] \<Longrightarrow> (\<forall>i. ready w i = CLOSED)"
    and "length (timers w) \<le> 1"
  shows "single w"
  using assms unfolding single_def by blast

lemma single_WsOpen:
  assumes "single w"
  shows "single (step h w (WsOpen i))"
proof (cases "ready w i = CONNECTING")
  case False
  with assms show ?thesis by simp
next
  case True
  let ?w = "onopen (set_readyState i OPEN w)"
  have r: "ready ?w j = (if j = i then OPEN else ready w j)" for j
    using True by (auto simp add: onopen_def ready_def set_readyState_def nth_list_update)
  have f: "mountedRef ?w = mountedRef w" "wsRef ?w = wsRef w" "timers ?w = timers w"
    by (simp_all add: onopen_def set_readyState_def)
  from True have live: "ready w i \<noteq> CLOSED" by simp
  have "single ?w"
  proof (rule singleI)
    show "mountedRef ?w" using assms by (simp add: f single_def)
    show "wsRef ?w = Some j" if "ready ?w j \<noteq> CLOSED" for j
    proof (cases "j = i")
      case True
      from live have "i < length (sockets w)" by (auto simp add: ready_def split: if_splits)
      with assms live True show ?thesis by (simp add: f single_def)
    next
      case False
      with that r have "ready w j \<noteq> CLOSED" by simp
      with single_closed_but [OF assms live False] show ?thesis by simp
    qed
    show "\<forall>j. ready ?w j = CLOSED" if "timers ?w \<noteq> []"
      using that single_no_timer [OF assms live] by (simp add: f)
    show "length (timers ?w) \<le> 1" using assms by (simp add: f single_def)
  qed
  with True show ?thesis by simp
qed

lemma single_WsMessage:
  assumes "single w"
  shows "single (step h w (WsMessage i f))"
proof -
  have "single (onmessage f w)"
    using assms browser_onmessage [of f w] by (simp add: single_def ready_def)
  with assms show ?thesis by simp
qed

lemma single_WsError:
  assumes "single w"
  shows "single (step h w (WsError i))"
proof -
  have "single (onerror w)"
    using assms by (simp add: single_def ready_def onerror_def)
  with assms show ?thesis by simp
qed

lemma single_WsClose:
  assumes "single w"
  shows "single (step h w (WsClose i))"
proof (cases "ready w i \<noteq> CLOSED")
  case False
  with assms show ?thesis by simp
next
  case True
  let ?w = "onclose (closure (sockets w ! i)) (set_readyState i CLOSED w)"
  have t: "timers w = []" by (rule single_no_timer [OF assms True])
  have r: "ready ?w j = CLOSED" for j
  proof (cases "j = i")
    case True
    then show ?thesis
      by (simp add: onclose_def setTimeout_def ready_def set_readyState_def Let_def)
  next
    case False
    from single_closed_but [OF assms True False] False show ?thesis
      by (auto simp add: onclose_def setTimeout_def ready_def set_readyState_def Let_def
          nth_list_update split: if_splits)
  qed
  have "single ?w"
  proof (rule singleI)
    show "mountedRef ?w"
      using assms by (simp add: single_def onclose_def setTimeout_def set_readyState_def Let_def)
    show "wsRef ?w = Some j" if "ready ?w j \<noteq> CLOSED" for j
      using that r by simp
    show "\<forall>j. ready ?w j = CLOSED" if "timers ?w \<noteq> []"
      using r by simp
    show "length (timers ?w) \<le> 1"
      using t by (simp add: onclose_def setTimeout_def set_readyState_def Let_def)
  qed
  with True show ?thesis by simp
qed

lemma single_Timeout:
  assumes "single w"
  shows "single (step h w (Timeout t))"
proof (cases "map_of (timers w) t")
  case None
  with assms show ?thesis by simp
next
  case (Some smb)
  let ?w = "connect h smb (clearTimeout t w)"
  from Some have ne: "timers w \<noteq> []" by auto
  with assms have closed: "ready w j = CLOSED" for j
    by (cases "j < length (sockets w)") (simp_all add: single_def ready_def)
  from ne assms obtain p where p: "timers w = [p]"
    by (cases "timers w") (simp_all add: single_def)
  with Some have "fst p = t" by (cases p) (simp split: if_splits)
  with p have t: "timers (clearTimeout t w) = []" by (simp add: clearTimeout_def)
  have m: "mountedRef w" using assms by (simp add: single_def)
  have "single ?w"
  proof (rule singleI)
    show "mountedRef ?w" using m by (simp add: connect_def clearTimeout_def)
    show "wsRef ?w = Some j" if "ready ?w j \<noteq> CLOSED" for j
      using that closed [of j] m
      by (auto simp add: connect_def clearTimeout_def ready_def nth_append split: if_splits)
    show "\<forall>j. ready ?w j = CLOSED" if "timers ?w \<noteq> []"
      using that t by (simp add: connect_def split: if_splits)
    show "length (timers ?w) \<le> 1"
      using t by (simp add: connect_def)
  qed
  with Some show ?thesis by simp
qed

lemma single_step:
  assumes "single w" and "\<forall>s. e \<noteq> Render s" and "e \<noteq> Unmount"
  shows "single (step h w e)"
proof (cases e)
  case (WsOpen i)
  with assms(1) show ?thesis by (simp only: single_WsOpen)
next
  case (WsMessage i f)
  with assms(1) show ?thesis by (simp only: single_WsMessage)
next
  case (WsError i)
  with assms(1) show ?thesis by (simp only: single_WsError)
next
  case (WsClose i)
  with assms(1) show ?thesis by (simp only: single_WsClose)
next
  case (Timeout t)
  with assms(1) show ?thesis by (simp only: single_Timeout)
qed (use assms in simp_all)

lemma single_run:
  "single w \<Longrightarrow> \<forall>e \<in> set es. (\<forall>s. e \<noteq> Render s) \<and> e \<noteq> Unmount \<Longrightarrow> single (run h w es)"
  unfolding run_def
  by (induction es arbitrary: w) (simp_all add: single_step)

lemma single_live:
  assumes "single w"
  shows "length (live w) \<le> 1"
proof (cases "wsRef w")
  case None
  have "set (live w) = {}"
  proof (rule ccontr)
    assume "set (live w) \<noteq> {}"
    then obtain i where "ready w i \<noteq> CLOSED" by (auto simp add: set_live)
    moreover then have "i < length (sockets w)" by (auto simp add: ready_def split: if_splits)
    ultimately have "wsRef w = Some i" using assms by (simp add: single_def)
    with None show False by simp
  qed
  then show ?thesis by simp
next
  case (Some k)
  have "set (live w) \<subseteq> {k}"
  proof
    fix i assume "i \<in> set (live w)"
    then have l: "ready w i \<noteq> CLOSED" by (simp add: set_live)
    then have "i < length (sockets w)" by (auto simp add: ready_def split: if_splits)
    with assms l have "wsRef w = Some i" by (simp add: single_def)
    with Some show "i \<in> {k}" by simp
  qed
  then have "card (set (live w)) \<le> card {k}" by (intro card_mono) simp_all
  then show ?thesis by (simp add: distinct_card [OF distinct_live])
qed

text \<open>
  C4, as the code has it: \<^verbatim>\<open>connect\<close> looks at the liveness flag and at nothing else.
  With the flag false it does nothing. With the flag true (and a URL the constructor
  accepts) it makes a new socket and stores it in \<^verbatim>\<open>wsRef\<close>, whatever \<^verbatim>\<open>wsRef\<close>
  held and whatever sockets are connecting or open, so there is one more socket that is
  not closed. At most one socket is not closed at any time for as long as the hook, once
  mounted, sees only socket and timeout events (no render with another key, no unmount):
  there \<^verbatim>\<open>connect\<close> runs only from a timeout, and a timeout is pending only while
  every socket is closed.
\<close>

theorem connect_guard_is_mountedRef:
  "(\<not> mountedRef w \<longrightarrow> connect h smb w = w) \<and>
   (mountedRef w \<longrightarrow> constructs h (wsUrl h smb) \<longrightarrow>
      sockets (connect h smb w) =
        sockets w @ [\<lparr>url = wsUrl h smb, closure = smb, readyState = CONNECTING\<rparr>] \<and>
      wsRef (connect h smb w) = Some (length (sockets w)) \<and>
      live (connect h smb w) = live w @ [length (sockets w)]) \<and>
   ((\<forall>e \<in> set es. (\<forall>s. e \<noteq> Render s) \<and> e \<noteq> Unmount) \<longrightarrow>
      length (live (run h (mount h smb) es)) \<le> 1)"
proof (intro conjI impI)
  assume "\<not> mountedRef w"
  then show "connect h smb w = w" by (simp add: connect_def)
next
  assume m: "mountedRef w" and c: "constructs h (wsUrl h smb)"
  then show "sockets (connect h smb w) =
      sockets w @ [\<lparr>url = wsUrl h smb, closure = smb, readyState = CONNECTING\<rparr>]"
    and "wsRef (connect h smb w) = Some (length (sockets w))"
    by (simp_all add: connect_def)
  from m c show "live (connect h smb w) = live w @ [length (sockets w)]"
    by (rule live_connect)
next
  assume "\<forall>e \<in> set es. (\<forall>s. e \<noteq> Render s) \<and> e \<noteq> Unmount"
  then have "single (run h (mount h smb) es)"
    by (rule single_run [OF single_mount])
  then show "length (live (run h (mount h smb) es)) \<le> 1" by (rule single_live)
qed

theorem connect_guard_is_mountedRef_witness:
  "connect localhost ''BTC'' (cleanup opened) = cleanup opened \<and>
   live opened = [0] \<and>
   live (connect localhost ''BTC'' opened) = [0, 1] \<and>
   wsRef (connect localhost ''BTC'' opened) = Some 1 \<and>
   length (live (run localhost (mount localhost ''BTC'')
     [WsOpen 0, WsMessage 0 None, WsError 0, WsClose 0, Timeout 1, WsOpen 1])) \<le> 1"
proof -
  have a: "\<not> mountedRef (cleanup opened)" "mountedRef opened"
    "constructs localhost (wsUrl localhost ''BTC'')" "live opened = [0]"
    "length (sockets opened) = 1"
    by code_simp+
  have b: "\<forall>e \<in> set [WsOpen 0, WsMessage 0 None, WsError 0, WsClose 0, Timeout 1, WsOpen 1].
             (\<forall>s. e \<noteq> Render s) \<and> e \<noteq> Unmount"
    by simp
  show ?thesis
    using a b
      connect_guard_is_mountedRef [where w = "cleanup opened" and h = localhost and smb = "''BTC''"]
      connect_guard_is_mountedRef [where w = opened and h = localhost and smb = "''BTC''"
        and es = "[WsOpen 0, WsMessage 0 None, WsError 0, WsClose 0, Timeout 1, WsOpen 1]"]
    by simp
qed

text \<open>
  C4 as stated fails: \<^verbatim>\<open>connect\<close> called while the socket in \<^verbatim>\<open>wsRef\<close> is
  connecting makes a second socket, and both are live. The hook itself makes that call
  after a key change: the close event of the old socket schedules a timeout, which
  calls the old \<^verbatim>\<open>connect\<close> while the socket of the new key is connecting.
\<close>

theorem second_socket_counterexample:
  "wsRef (mount localhost ''BTC'') = Some 0 \<and>
   ready (mount localhost ''BTC'') 0 = CONNECTING \<and>
   live (connect localhost ''BTC'' (mount localhost ''BTC'')) = [0, 1] \<and>
   live (run localhost (mount localhost ''BTC'') [Render ''ETH'', WsClose 0]) = [1] \<and>
   ready (run localhost (mount localhost ''BTC'') [Render ''ETH'', WsClose 0]) 1 = CONNECTING \<and>
   live (run localhost (mount localhost ''BTC'') [Render ''ETH'', WsClose 0, Timeout 1]) = [1, 2]"
  by code_simp

subsection \<open>The bound on reconnects\<close>


lemma live_Nil: "(live w = []) = (\<forall>j. ready w j = CLOSED)"
proof -
  have "(live w = []) = (set (live w) = {})" by simp
  also have "\<dots> = (\<forall>j. ready w j = CLOSED)" by (simp add: set_live)
  finally show ?thesis .
qed

lemma live_eq_singleton:
  assumes "\<And>j. (ready w j \<noteq> CLOSED) = (j = i)"
  shows "live w = [i]"
proof (cases "live w")
  case Nil
  then have "ready w i = CLOSED" by (simp add: live_Nil)
  with assms [of i] show ?thesis by simp
next
  case (Cons x xs)
  have d: "distinct (x # xs)" using distinct_live [of w] Cons by simp
  have m: "j = i" if "j \<in> set (x # xs)" for j
  proof -
    from that Cons have "j \<in> set (live w)" by simp
    then have "ready w j \<noteq> CLOSED" by (simp add: set_live)
    with assms [of j] show ?thesis by simp
  qed
  from m [of x] have x: "x = i" by simp
  have "xs = []"
  proof (cases xs)
    case (Cons y ys)
    with m [of y] have "y = i" by simp
    with d x Cons show ?thesis by simp
  qed simp
  with x Cons show ?thesis by simp
qed















end
